theory Spec2Isabelle
  imports Main
begin

section \<open>Values exchanged with the Lambda handler\<close>

text \<open>
  The program is \<^verbatim>\<open>src/app/aws-lambda/lambda_function.py\<close>. Every handler returns
  a dict \<^verbatim>\<open>{"statusCode": ..., "message": ...}\<close>, returns \<^verbatim>\<open>None\<close> (a function body that
  falls off its end), or raises. A result is therefore \<open>Inl e\<close> for an exception that
  leaves the handler, \<open>Inr None\<close> for \<^verbatim>\<open>None\<close> and \<open>Inr (Some r)\<close> for a response dict.
  The only class the handlers catch is \<^verbatim>\<open>RuntimeError\<close>. \<open>ClientError\<close> is the class of
  \<^verbatim>\<open>botocore.exceptions\<close> that a DynamoDB call raises when the service refuses it (it derives
  from \<^verbatim>\<open>Exception\<close>, not from \<^verbatim>\<open>RuntimeError\<close>); \<open>OtherException\<close> stands for any further
  class that is not \<^verbatim>\<open>RuntimeError\<close>.
\<close>

datatype exn =
    RuntimeError | KeyError | AttributeError | ValueError | TypeError | OverflowError
  | ClientError | OtherException

record response =
  statusCode :: int
  message :: string

type_synonym result = "exn + response option"

text \<open>
  \<^verbatim>\<open>GoogleAdsService.ConversionType\<close> is an enumeration declared outside the source file.
  The file names one member, \<^verbatim>\<open>MESSAGE_RECEIVED\<close>; the names of the other members are a
  parameter (\<open>conversion_names\<close> below). \<^verbatim>\<open>ConversionType[name]\<close> raises \<^verbatim>\<open>KeyError\<close> for a
  name that is no member.
\<close>

datatype ConversionType = MESSAGE_RECEIVED | Member string

definition ConversionType_getitem :: "string list \<Rightarrow> string \<Rightarrow> exn + ConversionType" where
  "ConversionType_getitem names key =
     (if key = ''MESSAGE_RECEIVED'' then Inr MESSAGE_RECEIVED
      else if key \<in> set names then Inr (Member key)
      else Inl KeyError)"

text \<open>
  \<^verbatim>\<open>str.upper()\<close>. On a string of ASCII characters it maps \<^verbatim>\<open>a\<close> to \<^verbatim>\<open>z\<close> onto \<^verbatim>\<open>A\<close> to \<^verbatim>\<open>Z\<close> and
  leaves the rest. On a string with other characters it follows the Unicode case
  mappings (\<^verbatim>\<open>U+017F\<close> becomes \<^verbatim>\<open>S\<close>, sharp s becomes \<^verbatim>\<open>SS\<close>); that part of the library is the
  parameter \<open>unicode_upper\<close>. A string is its UTF-8 bytes, so a character is ASCII when
  its code is below 128.
\<close>

definition is_ascii :: "char \<Rightarrow> bool" where
  "is_ascii c = ((of_char c :: nat) < 128)"

definition upper_char :: "char \<Rightarrow> char" where
  "upper_char c =
     (case map_of (zip ''abcdefghijklmnopqrstuvwxyz'' ''ABCDEFGHIJKLMNOPQRSTUVWXYZ'') c of
        Some u \<Rightarrow> u
      | None \<Rightarrow> c)"

definition upper :: "(string \<Rightarrow> string) \<Rightarrow> string \<Rightarrow> string" where
  "upper unicode_upper s = (if list_all is_ascii s then map upper_char s else unicode_upper s)"

section \<open>The click-log table\<close>

text \<open>
  The JSON body of a click beacon: \<^verbatim>\<open>body.get(k)\<close> is \<open>None\<close> for an absent key and
  for \<^verbatim>\<open>null\<close>. An item written by \<^verbatim>\<open>put_item\<close> carries the body's three fields and the
  two epoch-second timestamps; its partition key \<^verbatim>\<open>pk\<close> is always the literal \<^verbatim>\<open>"click"\<close>.
\<close>

record click_body =
  page_path :: "string option"
  gclid :: "string option"
  gbraid :: "string option"

record click_item = click_body +
  created_at :: int
  expires_at :: int
  matched :: bool

text \<open>
  The table's primary key is \<^verbatim>\<open>(pk, expires_at)\<close>: it is the \<^verbatim>\<open>Key\<close> that \<^verbatim>\<open>update_item\<close> is
  given at line 241. A DynamoDB table holds at most one item per primary key, so with
  \<^verbatim>\<open>pk\<close> fixed a table is a list of rows with distinct \<open>expires_at\<close>. \<^verbatim>\<open>update_item\<close> on a key
  that has no item creates one with the key and the attributes it sets; that row is
  \<open>Key_only\<close> (its \<^verbatim>\<open>matched\<close> is \<^verbatim>\<open>True\<close>, it has no click attributes).
\<close>

datatype row = Item click_item | Key_only int

fun row_key :: "row \<Rightarrow> int" where
  "row_key (Item it) = expires_at it"
| "row_key (Key_only k) = k"


fun set_matched :: "row \<Rightarrow> row" where
  "set_matched (Item it) = Item (it\<lparr>matched := True\<rparr>)"
| "set_matched (Key_only k) = Key_only k"

text \<open>\<^verbatim>\<open>put_item(Item=it)\<close>: the item replaces the one with the same primary key, if any.\<close>

definition put_item :: "click_item \<Rightarrow> row list \<Rightarrow> row list" where
  "put_item it t = Item it # filter (\<lambda>r. row_key r \<noteq> expires_at it) t"

text \<open>
  \<^verbatim>\<open>update_item(Key={"pk": "click", "expires_at": k}, UpdateExpression="SET matched = :matched")\<close>
  with \<^verbatim>\<open>:matched = True\<close> and no \<^verbatim>\<open>ConditionExpression\<close> (lines 240 to 244).
\<close>

definition update_item :: "int \<Rightarrow> row list \<Rightarrow> row list" where
  "update_item k t =
     (if k \<in> set (map row_key t)
      then map (\<lambda>r. if row_key r = k then set_matched r else r) t
      else Key_only k # t)"

text \<open>
  The query of lines 97 to 102: partition \<^verbatim>\<open>pk = "click"\<close>, \<^verbatim>\<open>ScanIndexForward=False\<close> (sort key
  descending), \<^verbatim>\<open>Limit=1\<close>, \<^verbatim>\<open>FilterExpression matched = False\<close>. DynamoDB applies \<^verbatim>\<open>Limit\<close> to
  the items it reads and the filter to what was read: the row with the greatest
  \<open>expires_at\<close> is read, and returned when it is unmatched.
\<close>

fun newest :: "row list \<Rightarrow> row option" where
  "newest [] = None"
| "newest (r # rs) =
     (case newest rs of
        None \<Rightarrow> Some r
      | Some r' \<Rightarrow> if row_key r' < row_key r then Some r else Some r')"

definition table_query :: "row list \<Rightarrow> click_item list" where
  "table_query t =
     (case newest t of
        Some (Item it) \<Rightarrow> if matched it = False then [it] else []
      | _ \<Rightarrow> [])"

section \<open>Collaborators and the world\<close>

text \<open>
  The calls the handlers make on the table, on \<^verbatim>\<open>kommo_service\<close> (the CRM) and on
  \<^verbatim>\<open>google_ads_service\<close> (the ads platform). \<^verbatim>\<open>kommo_service.update_lead\<close> takes the lead id,
  the source and the further keyword arguments. What \<^verbatim>\<open>construct_raw_lead(lead_id)\<close>
  returns is opaque to the handlers: \<open>Raw_lead lead_id\<close>.
\<close>

datatype raw_lead = Raw_lead string

datatype ext_call =
    Table_query
  | Table_put_item click_item
  | Table_update_item int
  | Kommo_update_lead string string "(string \<times> string option) list"
  | Kommo_construct_raw_lead string
  | Ads_upload_offline_conversion raw_lead ConversionType
  | Ads_upload_offline_conversion_adjustment ConversionType string

text \<open>
  The world is the table and the calls made so far, in order. The environment of one
  invocation holds the module constants, the instant of \<^verbatim>\<open>datetime.now()\<close> in microseconds
  since the epoch (each handler reads the clock at most once), and which calls raise:
  \<open>raises env cs c = Some e\<close> when call \<open>c\<close>, made after the calls \<open>cs\<close>, raises \<open>e\<close>.

  It also holds the library behaviour that the source file does not determine:
  \<^item> \<open>unicode_upper\<close>: \<^verbatim>\<open>str.upper()\<close> on a string with a non-ASCII character;
  \<^item> \<open>wall_of_epoch\<close>: the local wall-clock time of an instant, as the naive
    \<^verbatim>\<open>datetime.now()\<close> shows it, and \<open>epoch_of_wall\<close>: the instant that \<^verbatim>\<open>timestamp()\<close> gives for
    a naive wall-clock time computed by \<^verbatim>\<open>+ timedelta\<close> (its \<^verbatim>\<open>fold\<close> is 0); both in
    microseconds, both the identity when the process runs in UTC;
  \<^item> \<open>far_timestamp_int\<close>: \<^verbatim>\<open>int(dt.timestamp())\<close> for an instant before the epoch or from
    second \<open>2 ^ 34\<close> on, where the float that \<^verbatim>\<open>timestamp()\<close> returns need not keep the
    second.
\<close>

record world =
  table :: "row list"
  calls :: "ext_call list"

record env =
  conversion_names :: "string list"
  CLICK_LOG_TTL_MINUTES :: int
  now_us :: int
  raises :: "ext_call list \<Rightarrow> ext_call \<Rightarrow> exn option"
  unicode_upper :: "string \<Rightarrow> string"
  wall_of_epoch :: "int \<Rightarrow> int"
  epoch_of_wall :: "int \<Rightarrow> int"
  far_timestamp_int :: "int \<Rightarrow> int"

fun effect :: "ext_call \<Rightarrow> row list \<Rightarrow> row list" where
  "effect (Table_put_item it) t = put_item it t"
| "effect (Table_update_item k) t = update_item k t"
| "effect c t = t"

definition perform :: "env \<Rightarrow> ext_call \<Rightarrow> world \<Rightarrow> exn option \<times> world" where
  "perform env c w =
     (case raises env (calls w) c of
        Some e \<Rightarrow> (Some e, w\<lparr>calls := calls w @ [c]\<rparr>)
      | None \<Rightarrow> (None, \<lparr>table = effect c (table w), calls = calls w @ [c]\<rparr>))"

text \<open>Two statements in sequence: the second runs when the first did not raise.\<close>

definition and_then ::
  "(world \<Rightarrow> exn option \<times> world) \<Rightarrow> (world \<Rightarrow> exn option \<times> world) \<Rightarrow> world \<Rightarrow> exn option \<times> world"
where
  "and_then f g w = (case f w of (None, w') \<Rightarrow> g w' | (Some e, w') \<Rightarrow> (Some e, w'))"

text \<open>
  \<^verbatim>\<open>try: ...; return ok  except RuntimeError: return err\<close>: any other exception leaves the
  handler.
\<close>

fun except_RuntimeError :: "response \<Rightarrow> response \<Rightarrow> exn option \<times> world \<Rightarrow> result \<times> world" where
  "except_RuntimeError ok err (None, w) = (Inr (Some ok), w)"
| "except_RuntimeError ok err (Some RuntimeError, w) = (Inr (Some err), w)"
| "except_RuntimeError ok err (Some e, w) = (Inl e, w)"

section \<open>The event\<close>

text \<open>
  \<^verbatim>\<open>event["body"]\<close> is a string. Its two decodings are library code and are carried by the
  event: \<open>json_body\<close> is \<^verbatim>\<open>json.loads(event["body"] or {})\<close> and \<open>form_body\<close> is
  \<^verbatim>\<open>parse_qsl(unquote(base64.b64decode(body).decode("utf-8")))\<close>, each \<open>Inl e\<close> when the
  decoding raises \<open>e\<close> (\<^verbatim>\<open>TypeError\<close> for a missing body, \<^verbatim>\<open>ValueError\<close> for a body that does
  not decode). \<^verbatim>\<open>dict(pairs)\<close> keeps the last value of a repeated key.
  \<open>queryStringParameters\<close> is the dict of that name (empty when the event has none).
\<close>

record event =
  rawPath :: "string option"
  http_method :: string
  queryStringParameters :: "string \<rightharpoonup> string"
  json_body :: "exn + click_body"
  form_body :: "exn + (string \<times> string) list"

text \<open>
  Lines 279 to 285 and 289 to 295: \<^verbatim>\<open>payload = dict(parse_qsl(...))\<close> and \<^verbatim>\<open>payload[k]\<close>,
  which raises \<^verbatim>\<open>KeyError\<close> for a missing key.
\<close>

definition payload_getitem :: "event \<Rightarrow> string \<Rightarrow> exn + string" where
  "payload_getitem ev k =
     (case form_body ev of
        Inl e \<Rightarrow> Inl e
      | Inr pairs \<Rightarrow>
          (case map_of (rev pairs) k of None \<Rightarrow> Inl KeyError | Some v \<Rightarrow> Inr v))"

definition extract_lead_id :: "event \<Rightarrow> exn + string" where
  "extract_lead_id ev = payload_getitem ev ''leads[status][0][id]''"

definition extract_incoming_lead_id :: "event \<Rightarrow> exn + string" where
  "extract_incoming_lead_id ev = payload_getitem ev ''leads[add][0][id]''"

section \<open>The handlers\<close>

text \<open>
  \<^verbatim>\<open>int(dt.timestamp())\<close> for the instant \<open>us\<close>, in microseconds since the epoch. The float
  \<^verbatim>\<open>timestamp()\<close> is the whole second plus \<^verbatim>\<open>microsecond / 1e6\<close>, rounded to a double: from
  the epoch up to second \<open>2 ^ 34\<close> the spacing of the doubles is below two microseconds,
  the float stays below the next whole second and \<^verbatim>\<open>int\<close> gives the second. Outside that
  range the result is the library's.
\<close>

definition timestamp_int :: "env \<Rightarrow> int \<Rightarrow> int" where
  "timestamp_int env us =
     (if 0 \<le> us \<and> us < 17179869184 * 1000000 then us div 1000000
      else far_timestamp_int env us)"

text \<open>Python truthiness of a JSON string or \<^verbatim>\<open>None\<close>: \<^verbatim>\<open>None\<close> and \<^verbatim>\<open>""\<close> are falsy.\<close>

fun truthy :: "string option \<Rightarrow> bool" where
  "truthy None = False"
| "truthy (Some s) = (s \<noteq> [])"

text \<open>
  \<^verbatim>\<open>persist_clicklog_to_db\<close>, lines 169 to 205. \<^verbatim>\<open>created_at = datetime.now()\<close> is a naive local
  time and \<^verbatim>\<open>expires_at = created_at + timedelta(minutes=CLICK_LOG_TTL_MINUTES)\<close> is computed
  on the wall clock: \<open>expires_wall\<close>. The sum raises \<^verbatim>\<open>OverflowError\<close>, before the \<^verbatim>\<open>try\<close>, when
  it leaves the years 1 to 9999. \<open>click_log_item\<close> is the \<^verbatim>\<open>Item\<close> dict of lines 175 to 183:
  \<^verbatim>\<open>created_at.timestamp()\<close> is the instant of the clock reading, \<^verbatim>\<open>expires_at.timestamp()\<close>
  the instant that the local time zone gives to the wall-clock sum.
\<close>

definition expires_wall :: "env \<Rightarrow> int" where
  "expires_wall env =
     wall_of_epoch env (now_us env) + CLICK_LOG_TTL_MINUTES env * 60 * 1000000"

definition datetime_in_range :: "int \<Rightarrow> bool" where
  "datetime_in_range t = (- 62135596800 * 1000000 \<le> t \<and> t < 253402300800 * 1000000)"

definition click_log_item :: "env \<Rightarrow> click_body \<Rightarrow> click_item" where
  "click_log_item env body =
     \<lparr>page_path = page_path body, gclid = gclid body, gbraid = gbraid body,
      created_at = timestamp_int env (now_us env),
      expires_at = timestamp_int env (epoch_of_wall env (expires_wall env)),
      matched = False\<rparr>"

definition persist_clicklog_to_db :: "env \<Rightarrow> click_body \<Rightarrow> world \<Rightarrow> result \<times> world" where
  "persist_clicklog_to_db env body w =
     (if datetime_in_range (expires_wall env)
      then
        except_RuntimeError
          \<lparr>statusCode = 200, message = ''Click log persisted successfully.''\<rparr>
          \<lparr>statusCode = 500, message = ''Something went wrong while persisting the click log.''\<rparr>
          (perform env (Table_put_item (click_log_item env body)) w)
      else (Inl OverflowError, w))"

definition click_log_handler :: "env \<Rightarrow> event \<Rightarrow> world \<Rightarrow> result \<times> world" where
  "click_log_handler env ev w =
     (case json_body ev of
        Inl e \<Rightarrow> (Inl e, w)
      | Inr body \<Rightarrow>
          if \<not> (truthy (gclid body) \<or> truthy (gbraid body))
          then (Inr (Some \<lparr>statusCode = 400,
                           message = ''Missing required parameter gclid and gbraid''\<rparr>), w)
          else persist_clicklog_to_db env body w)"

text \<open>
  \<^verbatim>\<open>update_lead\<close>, lines 208 to 275. The clock test of line 234 compares
  \<^verbatim>\<open>datetime.now().timestamp()\<close>, in seconds, with the item's \<^verbatim>\<open>expires_at\<close> (the timestamp of
  \<^verbatim>\<open>datetime.now()\<close> is the instant of the reading in every time zone; the comparison is
  made on the exact instant, which is what the float decides up to second \<open>2 ^ 34\<close>).
  When the list is not empty and the test fails, no statement is left and the
  function returns \<^verbatim>\<open>None\<close>.
\<close>

definition update_lead ::
  "env \<Rightarrow> click_item list \<Rightarrow> ConversionType \<Rightarrow> string \<Rightarrow> world \<Rightarrow> result \<times> world"
where
  "update_lead env items conversion_type lead_id w =
     (case items of
        [] \<Rightarrow>
          except_RuntimeError
            \<lparr>statusCode = 200, message = ''Lead updated with organic source.''\<rparr>
            \<lparr>statusCode = 500, message = ''Lead with organic source could not be updated.''\<rparr>
            (perform env (Kommo_update_lead lead_id ''organic'' []) w)
      | it # rest \<Rightarrow>
          if now_us env \<le> expires_at it * 1000000
          then
            except_RuntimeError
              \<lparr>statusCode = 200, message = ''Lead updated with matched gclid.''\<rparr>
              \<lparr>statusCode = 500, message = ''Lead with cpc source could not be updated.''\<rparr>
              (and_then (perform env (Table_update_item (expires_at it)))
                (and_then
                   (perform env
                      (Kommo_update_lead lead_id ''cpc''
                         [(''gclid'', gclid it), (''gbraid'', gbraid it),
                          (''page_path'', page_path it)]))
                   (and_then (perform env (Kommo_construct_raw_lead lead_id))
                      (perform env
                         (Ads_upload_offline_conversion (Raw_lead lead_id) conversion_type))))
                w)
          else (Inr None, w))"

text \<open>
  \<^verbatim>\<open>update_lead_handler\<close>, lines 96 to 107: the query, then the lead id (an argument of
  the call of \<^verbatim>\<open>update_lead\<close>, evaluated after the query), then \<^verbatim>\<open>update_lead\<close>.
\<close>

definition update_lead_handler :: "env \<Rightarrow> ConversionType \<Rightarrow> event \<Rightarrow> world \<Rightarrow> result \<times> world" where
  "update_lead_handler env conversion_type ev w =
     (case perform env Table_query w of
        (Some e, w1) \<Rightarrow> (Inl e, w1)
      | (None, w1) \<Rightarrow>
          (case extract_incoming_lead_id ev of
             Inl e \<Rightarrow> (Inl e, w1)
           | Inr lead_id \<Rightarrow> update_lead env (table_query (table w1)) conversion_type lead_id w1))"

text \<open>
  \<^verbatim>\<open>upload_conversion_handler\<close>, lines 110 to 138. The lead id is computed before the
  \<^verbatim>\<open>try\<close>; \<^verbatim>\<open>construct_raw_lead\<close> is an argument of the upload and runs first.
\<close>

definition upload_conversion_handler ::
  "env \<Rightarrow> event \<Rightarrow> ConversionType \<Rightarrow> string option \<Rightarrow> world \<Rightarrow> result \<times> world"
where
  "upload_conversion_handler env ev conversion_type lead_id w =
     (case (case lead_id of None \<Rightarrow> extract_lead_id ev | Some l \<Rightarrow> Inr l) of
        Inl e \<Rightarrow> (Inl e, w)
      | Inr l \<Rightarrow>
          except_RuntimeError
            \<lparr>statusCode = 200, message = ''Conversion uploaded successfully.''\<rparr>
            \<lparr>statusCode = 500, message = ''Something went wrong while persisting the click log.''\<rparr>
            (and_then (perform env (Kommo_construct_raw_lead l))
               (perform env (Ads_upload_offline_conversion (Raw_lead l) conversion_type))
               w))"

text \<open>
  \<^verbatim>\<open>upload_conversion_adjustment_handler\<close>, lines 141 to 166. The lead id is read inside
  the \<^verbatim>\<open>try\<close>, with \<^verbatim>\<open>extract_incoming_lead_id\<close>.
\<close>

definition upload_conversion_adjustment_handler ::
  "env \<Rightarrow> event \<Rightarrow> ConversionType \<Rightarrow> world \<Rightarrow> result \<times> world"
where
  "upload_conversion_adjustment_handler env ev conversion_type w =
     except_RuntimeError
       \<lparr>statusCode = 200, message = ''Conversion adjustment uploaded successfully.''\<rparr>
       \<lparr>statusCode = 500,
        message = ''Something went wrong while uploading the click conversion adjustment.''\<rparr>
       (case extract_incoming_lead_id ev of
          Inl e \<Rightarrow> (Some e, w)
        | Inr lead_id \<Rightarrow>
            perform env (Ads_upload_offline_conversion_adjustment conversion_type lead_id) w)"

text \<open>The two flags of lines 53 to 56, read from the query string.\<close>

definition is_conversion_adjustment :: "event \<Rightarrow> bool" where
  "is_conversion_adjustment ev = (queryStringParameters ev ''is_adjustment'' = Some ''True'')"

definition is_manual_import :: "event \<Rightarrow> bool" where
  "is_manual_import ev = (queryStringParameters ev ''is_manual'' = Some ''True'')"

text \<open>
  \<^verbatim>\<open>lambda_handler\<close>, lines 36 to 79. \<^verbatim>\<open>conversion_type_key.upper()\<close> raises
  \<^verbatim>\<open>AttributeError\<close> when the parameter is absent (\<^verbatim>\<open>None\<close>).
\<close>

definition lambda_handler :: "env \<Rightarrow> event \<Rightarrow> world \<Rightarrow> result \<times> world" where
  "lambda_handler env ev w =
     (let path = (case rawPath ev of None \<Rightarrow> ''/'' | Some p \<Rightarrow> p);
          method = http_method ev
      in
        if path = ''/outbound-click-logs'' \<and> method = ''POST'' then click_log_handler env ev w
        else if path = ''/update-lead'' \<and> method = ''POST'' then
          (case queryStringParameters ev ''conversion_type'' of
             None \<Rightarrow> (Inl AttributeError, w)
           | Some conversion_type_key \<Rightarrow>
               (case ConversionType_getitem (conversion_names env)
                       (upper (unicode_upper env) conversion_type_key) of
                  Inl e \<Rightarrow> (Inl e, w)
                | Inr conversion_type \<Rightarrow>
                    if is_conversion_adjustment ev
                    then upload_conversion_adjustment_handler env ev conversion_type w
                    else if conversion_type = MESSAGE_RECEIVED then
                      (if is_manual_import ev
                       then
                         (case extract_incoming_lead_id ev of
                            Inl e \<Rightarrow> (Inl e, w)
                          | Inr lead_id \<Rightarrow>
                              upload_conversion_handler env ev conversion_type (Some lead_id) w)
                       else update_lead_handler env conversion_type ev w)
                    else upload_conversion_handler env ev conversion_type None w))
        else (Inr (Some \<lparr>statusCode = 404, message = ''Invalid path''\<rparr>), w))"

section \<open>The dispatch table of the specification\<close>

text \<open>
  The four paths of section 4.2 of the specification and the condition of each rule, in
  the specification's words: rule 1 asks for \<open>is_adjustment\<close>; rule 2 for
  \<^verbatim>\<open>MESSAGE_RECEIVED\<close> with \<open>is_manual\<close>; rule 3 for \<^verbatim>\<open>MESSAGE_RECEIVED\<close> without; rule 4 is for
  any other conversion type. The rules are read in the order of \<open>precedence\<close> and the
  first one that applies selects the path.
\<close>

datatype path = AdjustmentPath | ManualUploadPath | MatchedLeadPath | DirectUploadPath

fun rule_applies :: "path \<Rightarrow> ConversionType \<Rightarrow> bool \<Rightarrow> bool \<Rightarrow> bool" where
  "rule_applies AdjustmentPath conversion_type is_adjustment is_manual = is_adjustment"
| "rule_applies ManualUploadPath conversion_type is_adjustment is_manual =
     (conversion_type = MESSAGE_RECEIVED \<and> is_manual)"
| "rule_applies MatchedLeadPath conversion_type is_adjustment is_manual =
     (conversion_type = MESSAGE_RECEIVED \<and> \<not> is_manual)"
| "rule_applies DirectUploadPath conversion_type is_adjustment is_manual =
     (conversion_type \<noteq> MESSAGE_RECEIVED)"

definition precedence :: "path list" where
  "precedence = [AdjustmentPath, ManualUploadPath, MatchedLeadPath, DirectUploadPath]"

definition spec_dispatch :: "ConversionType \<Rightarrow> bool \<Rightarrow> bool \<Rightarrow> path option" where
  "spec_dispatch conversion_type is_adjustment is_manual =
     find (\<lambda>p. rule_applies p conversion_type is_adjustment is_manual) precedence"

text \<open>
  The call by which \<^verbatim>\<open>lambda_handler\<close> enters each path: the \<^verbatim>\<open>return\<close> statements of lines
  59, 66, 71 and 75.
\<close>

fun path_call :: "path \<Rightarrow> env \<Rightarrow> event \<Rightarrow> ConversionType \<Rightarrow> world \<Rightarrow> result \<times> world" where
  "path_call AdjustmentPath env ev conversion_type w =
     upload_conversion_adjustment_handler env ev conversion_type w"
| "path_call ManualUploadPath env ev conversion_type w =
     (case extract_incoming_lead_id ev of
        Inl e \<Rightarrow> (Inl e, w)
      | Inr lead_id \<Rightarrow> upload_conversion_handler env ev conversion_type (Some lead_id) w)"
| "path_call MatchedLeadPath env ev conversion_type w =
     update_lead_handler env conversion_type ev w"
| "path_call DirectUploadPath env ev conversion_type w =
     upload_conversion_handler env ev conversion_type None w"

section \<open>Claimed keys\<close>



section \<open>Concrete environments, events and worlds\<close>

text \<open>
  An environment in which no call raises, with the default TTL of 15 minutes, the
  clock at \<open>us\<close> microseconds and the process in UTC. What the library does with a
  non-ASCII string and with an instant outside the exact range of the float is left
  unspecified: the concrete requests below reach neither. \<open>failing c e\<close> makes the
  calls equal to \<open>c\<close> raise \<open>e\<close>.
\<close>

definition env_at :: "int \<Rightarrow> env" where
  "env_at us =
     \<lparr>conversion_names = [''QUALIFIED''], CLICK_LOG_TTL_MINUTES = 15, now_us = us,
      raises = (\<lambda>cs c. None), unicode_upper = undefined,
      wall_of_epoch = (\<lambda>u. u), epoch_of_wall = (\<lambda>t. t), far_timestamp_int = undefined\<rparr>"

text \<open>
  The same process with the local time of New York around 3 November 2024: at
  06:00 UTC (second 1730613600) the offset goes from 4 hours to 5 hours behind UTC,
  so the wall clock shows the hour from 01:00 to 02:00 twice. A naive wall-clock
  time with \<^verbatim>\<open>fold = 0\<close> before 02:00 (wall second 1730599200) is read with the first
  offset, a later one with the second.
\<close>

definition new_york :: "env \<Rightarrow> env" where
  "new_york env =
     env\<lparr>wall_of_epoch :=
           (\<lambda>u. if u < 1730613600 * 1000000 then u - 14400 * 1000000 else u - 18000 * 1000000),
         epoch_of_wall :=
           (\<lambda>t. if t < 1730599200 * 1000000 then t + 14400 * 1000000 else t + 18000 * 1000000)\<rparr>"

definition failing :: "ext_call \<Rightarrow> exn \<Rightarrow> env \<Rightarrow> env" where
  "failing c e env = env\<lparr>raises := (\<lambda>cs c'. if c' = c then Some e else raises env cs c')\<rparr>"

definition empty_world :: world where
  "empty_world = \<lparr>table = [], calls = []\<rparr>"

text \<open>
  A beacon posted to \<^verbatim>\<open>/outbound-click-logs\<close>, and the body \<^verbatim>\<open>{"gclid": "abc", "page_path": "/p"}\<close>.
  A beacon's body is not read as a form payload, nor a webhook's as JSON; that
  decoding is given as failing.
\<close>

definition click_event :: "click_body \<Rightarrow> event" where
  "click_event b =
     \<lparr>rawPath = Some ''/outbound-click-logs'', http_method = ''POST'',
      queryStringParameters = Map.empty, json_body = Inr b, form_body = Inl ValueError\<rparr>"

definition abc_click :: click_body where
  "abc_click = \<lparr>page_path = Some ''/p'', gclid = Some ''abc'', gbraid = None\<rparr>"

text \<open>A webhook posted to \<^verbatim>\<open>/update-lead\<close> with the given query string and form payload.\<close>

definition lead_event :: "(string \<times> string) list \<Rightarrow> (string \<times> string) list \<Rightarrow> event" where
  "lead_event qs form =
     \<lparr>rawPath = Some ''/update-lead'', http_method = ''POST'',
      queryStringParameters = map_of qs, json_body = Inl ValueError, form_body = Inr form\<rparr>"

text \<open>The item of the beacon above, created at second 1700000000, and a world holding it.\<close>

definition abc_item :: click_item where
  "abc_item =
     \<lparr>page_path = Some ''/p'', gclid = Some ''abc'', gbraid = None,
      created_at = 1700000000, expires_at = 1700000900, matched = False\<rparr>"

definition abc_world :: world where
  "abc_world = \<lparr>table = [Item abc_item], calls = [Table_put_item abc_item]\<rparr>"


section \<open>Unfolding the handlers\<close>

lemmas handler_defs =
  lambda_handler_def click_log_handler_def persist_clicklog_to_db_def click_log_item_def
  timestamp_int_def perform_def and_then_def update_lead_handler_def update_lead_def
  upload_conversion_handler_def upload_conversion_adjustment_handler_def
  is_conversion_adjustment_def is_manual_import_def extract_lead_id_def
  extract_incoming_lead_id_def payload_getitem_def ConversionType_getitem_def upper_def
  upper_char_def is_ascii_def expires_wall_def datetime_in_range_def table_query_def
  put_item_def update_item_def

lemmas input_defs =
  env_at_def new_york_def failing_def empty_world_def click_event_def abc_click_def lead_event_def
  abc_item_def abc_world_def

lemma except_RuntimeError_cases:
  "except_RuntimeError ok err (x, w1) =
     (case x of
        None \<Rightarrow> (Inr (Some ok), w1)
      | Some e \<Rightarrow> if e = RuntimeError then (Inr (Some err), w1) else (Inl e, w1))"
  by (cases x; cases "the x") auto

lemma persist_clicklog_to_db_cases:
  "datetime_in_range (expires_wall env) \<Longrightarrow>
   persist_clicklog_to_db env body w =
     (case raises env (calls w) (Table_put_item (click_log_item env body)) of
        None \<Rightarrow>
          (Inr (Some \<lparr>statusCode = 200, message = ''Click log persisted successfully.''\<rparr>),
           \<lparr>table = put_item (click_log_item env body) (table w),
            calls = calls w @ [Table_put_item (click_log_item env body)]\<rparr>)
      | Some e \<Rightarrow>
          (if e = RuntimeError
           then Inr (Some \<lparr>statusCode = 500,
                  message = ''Something went wrong while persisting the click log.''\<rparr>)
           else Inl e,
           w\<lparr>calls := calls w @ [Table_put_item (click_log_item env body)]\<rparr>))"
  by (simp add: persist_clicklog_to_db_def perform_def except_RuntimeError_cases
      split: option.splits)

lemma click_log_handler_cases:
  "click_log_handler env ev w =
     (case json_body ev of
        Inl e \<Rightarrow> (Inl e, w)
      | Inr body \<Rightarrow>
          if truthy (gclid body) \<or> truthy (gbraid body)
          then persist_clicklog_to_db env body w
          else (Inr (Some \<lparr>statusCode = 400,
                  message = ''Missing required parameter gclid and gbraid''\<rparr>), w))"
  by (simp add: click_log_handler_def split: sum.splits)

lemma lambda_handler_update_lead:
  assumes "rawPath ev = Some ''/update-lead''" and "http_method ev = ''POST''"
    and "queryStringParameters ev ''conversion_type'' = Some key"
  shows "lambda_handler env ev w =
     (case ConversionType_getitem (conversion_names env) (upper (unicode_upper env) key) of
        Inl e \<Rightarrow> (Inl e, w)
      | Inr conversion_type \<Rightarrow>
          if is_conversion_adjustment ev
          then upload_conversion_adjustment_handler env ev conversion_type w
          else if conversion_type = MESSAGE_RECEIVED then
            (if is_manual_import ev
             then
               (case extract_incoming_lead_id ev of
                  Inl e \<Rightarrow> (Inl e, w)
                | Inr lead_id \<Rightarrow>
                    upload_conversion_handler env ev conversion_type (Some lead_id) w)
             else update_lead_handler env conversion_type ev w)
          else upload_conversion_handler env ev conversion_type None w)"
  using assms by (simp add: lambda_handler_def)


section \<open>Timestamps of a persisted click\<close>






section \<open>A click that has expired\<close>

text \<open>
  With a first item that has expired, \<^verbatim>\<open>update_lead\<close> makes no call and returns \<^verbatim>\<open>None\<close>.
\<close>

lemma update_lead_expired:
  "expires_at it * 1000000 < now_us env \<Longrightarrow>
   update_lead env (it # rest) conversion_type lead_id w = (Inr None, w)"
  by (simp add: update_lead_def)

text \<open>
  Claim C2. The scenario of the specification: the beacon is stored as \<open>abc_item\<close>,
  which expires at second 1700000900, and the \<^verbatim>\<open>MESSAGE_RECEIVED\<close> webhook of lead 42
  arrives twenty minutes after the click. The query returns the item, the test of
  line 234 fails, and \<^verbatim>\<open>update_lead\<close> returns \<^verbatim>\<open>None\<close>: the only call made is the query, so
  the lead is not tagged, and there is no response with a status code.
\<close>

theorem expired_click_returns_None:
  "lambda_handler (env_at 1700001200250000)
     (lead_event [(''conversion_type'', ''message_received'')] [(''leads[add][0][id]'', ''42'')])
     abc_world =
   (Inr None, abc_world\<lparr>calls := [Table_put_item abc_item, Table_query]\<rparr>)"
  by (simp add: handler_defs input_defs)

section \<open>The click-log endpoint\<close>

text \<open>
  What the click-log handler does with a JSON body: with \<^verbatim>\<open>gclid\<close> and \<^verbatim>\<open>gbraid\<close> both
  falsy it answers 400 and makes no call; with one of them truthy and a \<^verbatim>\<open>put_item\<close>
  that does not raise it answers 200 and the table holds the new item, unmatched.
\<close>

lemma click_log_handler_outcomes:
  assumes "json_body ev = Inr b" and "datetime_in_range (expires_wall env)"
  shows "(\<not> truthy (gclid b) \<and> \<not> truthy (gbraid b) \<longrightarrow>
            click_log_handler env ev w =
              (Inr (Some \<lparr>statusCode = 400,
                 message = ''Missing required parameter gclid and gbraid''\<rparr>), w))
       \<and> ((truthy (gclid b) \<or> truthy (gbraid b)) \<and>
            raises env (calls w) (Table_put_item (click_log_item env b)) = None \<longrightarrow>
            fst (click_log_handler env ev w) =
              Inr (Some \<lparr>statusCode = 200, message = ''Click log persisted successfully.''\<rparr>) \<and>
            table (snd (click_log_handler env ev w)) = put_item (click_log_item env b) (table w) \<and>
            Item (click_log_item env b) \<in> set (table (snd (click_log_handler env ev w))) \<and>
            matched (click_log_item env b) = False)"
  using assms
  by (simp add: click_log_handler_cases persist_clicklog_to_db_cases put_item_def
      click_log_item_def)

text \<open>
  Claim C8. The first two parts of the claim are what the handler does (above). The
  third is what the \<^verbatim>\<open>try\<close> of lines 173 to 205 is written for: its handler logs that the
  click log could not be persisted and answers 500. But the clause catches
  \<^verbatim>\<open>RuntimeError\<close>, and a DynamoDB write that fails raises \<^verbatim>\<open>ClientError\<close>: for the beacon of
  the scenarios and a \<^verbatim>\<open>put_item\<close> that the service refuses, the exception leaves the
  handler, and no response with status 500 is returned.
\<close>

theorem store_failure_leaves_handler:
  "click_log_handler (failing (Table_put_item abc_item) ClientError (env_at 1700000000250000))
     (click_event abc_click) empty_world =
   (Inl ClientError, \<lparr>table = [], calls = [Table_put_item abc_item]\<rparr>)"
  by (simp add: handler_defs input_defs)

section \<open>Persisting the same body twice\<close>

text \<open>
  Claim C7, as amended. Two accepted submissions of the same body, both written
  without error (the expiry is a date that \<^verbatim>\<open>datetime\<close> can hold and \<^verbatim>\<open>put_item\<close> does not
  raise), leave two distinct items in the table when their \<open>expires_at\<close> seconds differ
  (the item's primary key is \<open>expires_at\<close>).
\<close>

theorem two_persists:
  assumes "json_body ev = Inr b"
    and "truthy (gclid b) \<or> truthy (gbraid b)"
    and "datetime_in_range (expires_wall env1)" and "datetime_in_range (expires_wall env2)"
    and "raises env1 (calls w) (Table_put_item (click_log_item env1 b)) = None"
    and "raises env2 (calls w @ [Table_put_item (click_log_item env1 b)])
           (Table_put_item (click_log_item env2 b)) = None"
    and "expires_at (click_log_item env1 b) \<noteq> expires_at (click_log_item env2 b)"
  shows "Item (click_log_item env1 b) \<in>
           set (table (snd (click_log_handler env2 ev (snd (click_log_handler env1 ev w)))))
       \<and> Item (click_log_item env2 b) \<in>
           set (table (snd (click_log_handler env2 ev (snd (click_log_handler env1 ev w)))))
       \<and> click_log_item env1 b \<noteq> click_log_item env2 b"
  using assms
  by (auto simp: click_log_handler_cases persist_clicklog_to_db_cases put_item_def)

theorem two_persists_witness:
  "Item abc_item \<in>
     set (table (snd (click_log_handler (env_at 1700000001250000) (click_event abc_click)
        (snd (click_log_handler (env_at 1700000000250000) (click_event abc_click) empty_world)))))
   \<and> Item (abc_item\<lparr>created_at := 1700000001, expires_at := 1700000901\<rparr>) \<in>
     set (table (snd (click_log_handler (env_at 1700000001250000) (click_event abc_click)
        (snd (click_log_handler (env_at 1700000000250000) (click_event abc_click) empty_world)))))"
  using two_persists [of "click_event abc_click" abc_click "env_at 1700000000250000"
      "env_at 1700000001250000" empty_world]
  by (simp add: input_defs click_log_item_def timestamp_int_def expires_wall_def
      datetime_in_range_def)

text \<open>
  Claim C7, as stated, fails for two submissions within the same clock second: both
  answer 200, both items have the same primary key, and the second \<^verbatim>\<open>put_item\<close> replaces
  the first. The table holds one row.
\<close>

theorem same_second_persist_replaces:
  "fst (click_log_handler (env_at 1700000000250000) (click_event abc_click) empty_world) =
     Inr (Some \<lparr>statusCode = 200, message = ''Click log persisted successfully.''\<rparr>)
   \<and> fst (click_log_handler (env_at 1700000000750000) (click_event abc_click)
        (snd (click_log_handler (env_at 1700000000250000) (click_event abc_click) empty_world))) =
     Inr (Some \<lparr>statusCode = 200, message = ''Click log persisted successfully.''\<rparr>)
   \<and> table (snd (click_log_handler (env_at 1700000000750000) (click_event abc_click)
        (snd (click_log_handler (env_at 1700000000250000) (click_event abc_click) empty_world)))) =
     [Item abc_item]"
  by (simp add: handler_defs input_defs)

section \<open>Dispatch of a lead event\<close>

text \<open>
  Claim C6. For a \<^verbatim>\<open>POST /update-lead\<close> request whose conversion type is a member of the
  enumeration, the ordered rules of the specification select a path (the first rule
  that applies, so exactly one path, a function of the conversion type and the two
  flags), and \<^verbatim>\<open>lambda_handler\<close> makes the call of that path. Without \<open>is_adjustment\<close> the
  selected rule is the only rule that applies; with it, rule 1 comes first.
\<close>

theorem dispatch_follows_precedence:
  assumes "rawPath ev = Some ''/update-lead''" and "http_method ev = ''POST''"
    and "queryStringParameters ev ''conversion_type'' = Some key"
    and "ConversionType_getitem (conversion_names env) (upper (unicode_upper env) key) =
           Inr conversion_type"
  shows "\<exists>p. spec_dispatch conversion_type (is_conversion_adjustment ev) (is_manual_import ev) = Some p
      \<and> lambda_handler env ev w = path_call p env ev conversion_type w
      \<and> (\<not> is_conversion_adjustment ev \<longrightarrow>
           (\<forall>q. rule_applies q conversion_type (is_conversion_adjustment ev) (is_manual_import ev)
                = (q = p)))"
proof -
  have unique: "rule_applies q conversion_type False m = (q = p)"
    if "spec_dispatch conversion_type False m = Some p" for q p m
    using that by (cases q) (auto simp: spec_dispatch_def precedence_def split: if_splits)
  have "\<exists>p. spec_dispatch conversion_type (is_conversion_adjustment ev) (is_manual_import ev) = Some p
      \<and> lambda_handler env ev w = path_call p env ev conversion_type w"
    using assms(4)
    by (auto simp: lambda_handler_update_lead [OF assms(1,2,3)] spec_dispatch_def precedence_def)
  then show ?thesis
    using unique by (cases "is_conversion_adjustment ev") auto
qed

theorem dispatch_follows_precedence_witness:
  "spec_dispatch MESSAGE_RECEIVED False False = Some MatchedLeadPath
   \<and> lambda_handler (env_at 1700000300250000)
       (lead_event [(''conversion_type'', ''message_received'')] [(''leads[add][0][id]'', ''42'')])
       abc_world =
     update_lead_handler (env_at 1700000300250000) MESSAGE_RECEIVED
       (lead_event [(''conversion_type'', ''message_received'')] [(''leads[add][0][id]'', ''42'')])
       abc_world"
  using dispatch_follows_precedence [of
      "lead_event [(''conversion_type'', ''message_received'')] [(''leads[add][0][id]'', ''42'')]"
      "''message_received''" "env_at 1700000300250000" MESSAGE_RECEIVED abc_world]
  by (simp add: lead_event_def env_at_def upper_def upper_char_def is_ascii_def
      ConversionType_getitem_def
      is_conversion_adjustment_def is_manual_import_def spec_dispatch_def precedence_def)

text \<open>
  Claim C10. A flag is true exactly when its query-string value is the string
  \<^verbatim>\<open>True\<close>: with \<^verbatim>\<open>is_adjustment=True\<close> the request goes to the adjustment handler; with any
  other value, or none, it goes to the manual upload (for \<^verbatim>\<open>MESSAGE_RECEIVED\<close> with
  \<^verbatim>\<open>is_manual=True\<close>), to the matcher (for \<^verbatim>\<open>MESSAGE_RECEIVED\<close> with any other value of
  \<^verbatim>\<open>is_manual\<close>, or none), or to the direct upload (for the other conversion types).
\<close>

theorem flags_are_exactly_True:
  assumes "rawPath ev = Some ''/update-lead''" and "http_method ev = ''POST''"
    and "queryStringParameters ev ''conversion_type'' = Some key"
    and "ConversionType_getitem (conversion_names env) (upper (unicode_upper env) key) =
           Inr conversion_type"
  shows "(queryStringParameters ev ''is_adjustment'' = Some ''True'' \<longrightarrow>
            lambda_handler env ev w = upload_conversion_adjustment_handler env ev conversion_type w)
       \<and> (queryStringParameters ev ''is_adjustment'' \<noteq> Some ''True'' \<and>
          conversion_type = MESSAGE_RECEIVED \<and>
          queryStringParameters ev ''is_manual'' = Some ''True'' \<longrightarrow>
            lambda_handler env ev w =
              (case extract_incoming_lead_id ev of
                 Inl e \<Rightarrow> (Inl e, w)
               | Inr lead_id \<Rightarrow>
                   upload_conversion_handler env ev conversion_type (Some lead_id) w))
       \<and> (queryStringParameters ev ''is_adjustment'' \<noteq> Some ''True'' \<and>
          conversion_type = MESSAGE_RECEIVED \<and>
          queryStringParameters ev ''is_manual'' \<noteq> Some ''True'' \<longrightarrow>
            lambda_handler env ev w = update_lead_handler env conversion_type ev w)
       \<and> (queryStringParameters ev ''is_adjustment'' \<noteq> Some ''True'' \<and>
          conversion_type \<noteq> MESSAGE_RECEIVED \<longrightarrow>
            lambda_handler env ev w = upload_conversion_handler env ev conversion_type None w)"
  using assms(4)
  by (auto simp: lambda_handler_update_lead [OF assms(1,2,3)] is_conversion_adjustment_def
      is_manual_import_def)


theorem flags_are_exactly_True_witness:
  "lambda_handler (env_at 1700000300250000)
     (lead_event [(''conversion_type'', ''message_received''), (''is_adjustment'', ''true''),
        (''is_manual'', ''TRUE'')] [(''leads[add][0][id]'', ''42'')]) abc_world =
   update_lead_handler (env_at 1700000300250000) MESSAGE_RECEIVED
     (lead_event [(''conversion_type'', ''message_received''), (''is_adjustment'', ''true''),
        (''is_manual'', ''TRUE'')] [(''leads[add][0][id]'', ''42'')]) abc_world
   \<and> lambda_handler (env_at 1700000300250000)
     (lead_event [(''conversion_type'', ''message_received''), (''is_adjustment'', ''1'')]
        [(''leads[add][0][id]'', ''42'')]) abc_world =
   update_lead_handler (env_at 1700000300250000) MESSAGE_RECEIVED
     (lead_event [(''conversion_type'', ''message_received''), (''is_adjustment'', ''1'')]
        [(''leads[add][0][id]'', ''42'')]) abc_world
   \<and> lambda_handler (env_at 1700000300250000)
     (lead_event [(''conversion_type'', ''message_received''), (''is_adjustment'', ''True'')]
        [(''leads[add][0][id]'', ''42'')]) abc_world =
   upload_conversion_adjustment_handler (env_at 1700000300250000)
     (lead_event [(''conversion_type'', ''message_received''), (''is_adjustment'', ''True'')]
        [(''leads[add][0][id]'', ''42'')]) MESSAGE_RECEIVED abc_world"
  using
    flags_are_exactly_True [of
      "lead_event [(''conversion_type'', ''message_received''), (''is_adjustment'', ''true''),
        (''is_manual'', ''TRUE'')] [(''leads[add][0][id]'', ''42'')]"
      "''message_received''" "env_at 1700000300250000" MESSAGE_RECEIVED abc_world]
    flags_are_exactly_True [of
      "lead_event [(''conversion_type'', ''message_received''), (''is_adjustment'', ''1'')]
        [(''leads[add][0][id]'', ''42'')]"
      "''message_received''" "env_at 1700000300250000" MESSAGE_RECEIVED abc_world]
    flags_are_exactly_True [of
      "lead_event [(''conversion_type'', ''message_received''), (''is_adjustment'', ''True'')]
        [(''leads[add][0][id]'', ''42'')]"
      "''message_received''" "env_at 1700000300250000" MESSAGE_RECEIVED abc_world]
  by (simp add: lead_event_def env_at_def upper_def upper_char_def is_ascii_def
      ConversionType_getitem_def)

section \<open>An unrecognised conversion type\<close>

text \<open>
  Claim C5, as amended. A \<^verbatim>\<open>POST /update-lead\<close> request whose \<^verbatim>\<open>conversion_type\<close> value, as
  \<^verbatim>\<open>str.upper()\<close> returns it (Unicode case mappings included), names no member of the
  enumeration fails with the \<^verbatim>\<open>KeyError\<close> of the lookup at line 49, which no handler
  catches, before any side effect: the world is unchanged (no table call, no CRM
  call, no ads-platform call).
\<close>

theorem unknown_conversion_type_raises:
  assumes "rawPath ev = Some ''/update-lead''" and "http_method ev = ''POST''"
    and "queryStringParameters ev ''conversion_type'' = Some key"
    and "upper (unicode_upper env) key \<noteq> ''MESSAGE_RECEIVED''"
    and "upper (unicode_upper env) key \<notin> set (conversion_names env)"
  shows "lambda_handler env ev w = (Inl KeyError, w)"
  using assms(4,5)
  by (simp add: lambda_handler_update_lead [OF assms(1,2,3)] ConversionType_getitem_def)

theorem unknown_conversion_type_raises_witness:
  "lambda_handler (env_at 1700000300250000)
     (lead_event [(''conversion_type'', ''purchase''), (''is_adjustment'', ''True'')]
        [(''leads[add][0][id]'', ''42'')]) abc_world = (Inl KeyError, abc_world)"
  using unknown_conversion_type_raises [of
      "lead_event [(''conversion_type'', ''purchase''), (''is_adjustment'', ''True'')]
        [(''leads[add][0][id]'', ''42'')]" "''purchase''" "env_at 1700000300250000" abc_world]
  by (simp add: lead_event_def env_at_def upper_def upper_char_def is_ascii_def)

text \<open>
  Claim C5, as stated, fails: for \<^verbatim>\<open>conversion_type=bogus\<close> the handler returns no
  response at all, with status 400 or any other; the outcome is the uncaught
  \<^verbatim>\<open>KeyError\<close>.
\<close>

theorem unknown_conversion_type_no_response:
  "fst (lambda_handler (env_at 1700000300250000)
     (lead_event [(''conversion_type'', ''bogus'')] [(''leads[add][0][id]'', ''42'')])
     abc_world) = Inl KeyError"
  by (simp add: handler_defs input_defs)

section \<open>The adjustment path\<close>

text \<open>
  Claim C3, as amended. A \<^verbatim>\<open>POST /update-lead\<close> request with a recognised conversion
  type and \<^verbatim>\<open>is_adjustment=True\<close> takes the adjustment path, which involves neither the
  matcher nor the click-log table: the lead id is read from the lead-added field
  \<^verbatim>\<open>leads[add][0][id]\<close> of the payload.
  \<^item> When the payload has that field, the only call made is the ads platform's
    adjustment upload with that conversion type and lead id, the table is unchanged,
    and the answer is 200 when the upload succeeds and 500 when it raises
    \<^verbatim>\<open>RuntimeError\<close>.
  \<^item> When reading the field raises, no call is made at all and the exception leaves
    the handler; for a payload that decodes and has no such field it is \<^verbatim>\<open>KeyError\<close>.
\<close>

theorem adjustment_reads_lead_added_field:
  assumes "rawPath ev = Some ''/update-lead''" and "http_method ev = ''POST''"
    and "queryStringParameters ev ''conversion_type'' = Some key"
    and "ConversionType_getitem (conversion_names env) (upper (unicode_upper env) key) =
           Inr conversion_type"
    and "queryStringParameters ev ''is_adjustment'' = Some ''True''"
  shows "(\<forall>lead_id. payload_getitem ev ''leads[add][0][id]'' = Inr lead_id \<longrightarrow>
            calls (snd (lambda_handler env ev w)) =
              calls w @ [Ads_upload_offline_conversion_adjustment conversion_type lead_id] \<and>
            table (snd (lambda_handler env ev w)) = table w \<and>
            (raises env (calls w)
               (Ads_upload_offline_conversion_adjustment conversion_type lead_id) = None \<longrightarrow>
             fst (lambda_handler env ev w) =
               Inr (Some \<lparr>statusCode = 200,
                 message = ''Conversion adjustment uploaded successfully.''\<rparr>)) \<and>
            (raises env (calls w)
               (Ads_upload_offline_conversion_adjustment conversion_type lead_id) =
               Some RuntimeError \<longrightarrow>
             fst (lambda_handler env ev w) =
               Inr (Some \<lparr>statusCode = 500,
                 message =
                   ''Something went wrong while uploading the click conversion adjustment.''\<rparr>)))
       \<and> (\<forall>e. payload_getitem ev ''leads[add][0][id]'' = Inl e \<longrightarrow>
            snd (lambda_handler env ev w) = w \<and>
            (e \<noteq> RuntimeError \<longrightarrow> fst (lambda_handler env ev w) = Inl e))
       \<and> (\<forall>pairs. form_body ev = Inr pairs \<and> map_of (rev pairs) ''leads[add][0][id]'' = None \<longrightarrow>
            lambda_handler env ev w = (Inl KeyError, w))"
proof -
  have h: "lambda_handler env ev w = upload_conversion_adjustment_handler env ev conversion_type w"
    using assms(4,5)
    by (simp add: lambda_handler_update_lead [OF assms(1,2,3)] is_conversion_adjustment_def)
  show ?thesis
    unfolding h
    by (auto simp: upload_conversion_adjustment_handler_def extract_incoming_lead_id_def
        payload_getitem_def perform_def except_RuntimeError_cases
        split: option.splits sum.splits)
qed

theorem adjustment_reads_lead_added_field_witness:
  "calls (snd (lambda_handler (env_at 1700000300250000)
     (lead_event [(''conversion_type'', ''qualified''), (''is_adjustment'', ''True'')]
        [(''leads[add][0][id]'', ''42'')]) abc_world)) =
     [Table_put_item abc_item, Ads_upload_offline_conversion_adjustment (Member ''QUALIFIED'') ''42'']
   \<and> table (snd (lambda_handler (env_at 1700000300250000)
     (lead_event [(''conversion_type'', ''qualified''), (''is_adjustment'', ''True'')]
        [(''leads[add][0][id]'', ''42'')]) abc_world)) = [Item abc_item]
   \<and> fst (lambda_handler (env_at 1700000300250000)
     (lead_event [(''conversion_type'', ''qualified''), (''is_adjustment'', ''True'')]
        [(''leads[add][0][id]'', ''42'')]) abc_world) =
     Inr (Some \<lparr>statusCode = 200, message = ''Conversion adjustment uploaded successfully.''\<rparr>)
   \<and> lambda_handler (env_at 1700000300250000)
     (lead_event [(''conversion_type'', ''qualified''), (''is_adjustment'', ''True'')]
        [(''leads[status][0][id]'', ''42'')]) abc_world = (Inl KeyError, abc_world)"
  using adjustment_reads_lead_added_field [of
      "lead_event [(''conversion_type'', ''qualified''), (''is_adjustment'', ''True'')]
        [(''leads[add][0][id]'', ''42'')]" "''qualified''" "env_at 1700000300250000"
      "Member ''QUALIFIED''" abc_world]
    adjustment_reads_lead_added_field [of
      "lead_event [(''conversion_type'', ''qualified''), (''is_adjustment'', ''True'')]
        [(''leads[status][0][id]'', ''42'')]" "''qualified''" "env_at 1700000300250000"
      "Member ''QUALIFIED''" abc_world]
  by (simp add: lead_event_def env_at_def abc_world_def upper_def upper_char_def is_ascii_def
      ConversionType_getitem_def payload_getitem_def)

text \<open>
  Claim C3, as stated, fails on the field: with \<^verbatim>\<open>leads[status][0][id]=7\<close> and
  \<^verbatim>\<open>leads[add][0][id]=42\<close> in the payload the adjustment is uploaded for lead 42, and with
  the status-changed field alone the lookup of line 295 raises \<^verbatim>\<open>KeyError\<close> and no
  upload is made.
\<close>

theorem adjustment_ignores_status_field:
  "extract_lead_id
     (lead_event [(''conversion_type'', ''qualified''), (''is_adjustment'', ''True'')]
        [(''leads[status][0][id]'', ''7''), (''leads[add][0][id]'', ''42'')]) = Inr ''7''
   \<and> calls (snd (lambda_handler (env_at 1700000300250000)
     (lead_event [(''conversion_type'', ''qualified''), (''is_adjustment'', ''True'')]
        [(''leads[status][0][id]'', ''7''), (''leads[add][0][id]'', ''42'')]) empty_world)) =
     [Ads_upload_offline_conversion_adjustment (Member ''QUALIFIED'') ''42'']
   \<and> lambda_handler (env_at 1700000300250000)
     (lead_event [(''conversion_type'', ''qualified''), (''is_adjustment'', ''True'')]
        [(''leads[status][0][id]'', ''7'')]) empty_world = (Inl KeyError, empty_world)"
  by (simp add: handler_defs input_defs)


section \<open>Failures on the matched-lead path\<close>

text \<open>
  Claim C4, as amended. On the matched-lead path with a matched click (a first item
  that has not expired, claimed without error), a \<^verbatim>\<open>RuntimeError\<close> of the CRM lead update
  and a \<^verbatim>\<open>RuntimeError\<close> of the ads-platform conversion upload produce the same outcome:
  status 500 with the message \<^verbatim>\<open>Lead with cpc source could not be updated.\<close>
\<close>

theorem cpc_failures_share_one_outcome:
  assumes "now_us env \<le> expires_at it * 1000000"
    and "raises env (calls w) (Table_update_item (expires_at it)) = None"
  shows "(raises env (calls w @ [Table_update_item (expires_at it)])
            (Kommo_update_lead lead_id ''cpc''
               [(''gclid'', gclid it), (''gbraid'', gbraid it), (''page_path'', page_path it)]) =
            Some RuntimeError
          \<longrightarrow> fst (update_lead env (it # rest) conversion_type lead_id w) =
                Inr (Some \<lparr>statusCode = 500,
                  message = ''Lead with cpc source could not be updated.''\<rparr>))
       \<and> (raises env (calls w @ [Table_update_item (expires_at it)])
            (Kommo_update_lead lead_id ''cpc''
               [(''gclid'', gclid it), (''gbraid'', gbraid it), (''page_path'', page_path it)]) = None
          \<and> raises env
              (calls w @ [Table_update_item (expires_at it),
                 Kommo_update_lead lead_id ''cpc''
                   [(''gclid'', gclid it), (''gbraid'', gbraid it), (''page_path'', page_path it)]])
              (Kommo_construct_raw_lead lead_id) = None
          \<and> raises env
              (calls w @ [Table_update_item (expires_at it),
                 Kommo_update_lead lead_id ''cpc''
                   [(''gclid'', gclid it), (''gbraid'', gbraid it), (''page_path'', page_path it)],
                 Kommo_construct_raw_lead lead_id])
              (Ads_upload_offline_conversion (Raw_lead lead_id) conversion_type) = Some RuntimeError
          \<longrightarrow> fst (update_lead env (it # rest) conversion_type lead_id w) =
                Inr (Some \<lparr>statusCode = 500,
                  message = ''Lead with cpc source could not be updated.''\<rparr>))"
  using assms
  by (simp add: update_lead_def and_then_def perform_def except_RuntimeError_cases)

theorem cpc_failures_share_one_outcome_witness:
  "fst (update_lead
     (failing (Kommo_update_lead ''42'' ''cpc''
         [(''gclid'', Some ''abc''), (''gbraid'', None), (''page_path'', Some ''/p'')])
        RuntimeError (env_at 1700000300250000))
     [abc_item] MESSAGE_RECEIVED ''42'' abc_world) =
     Inr (Some \<lparr>statusCode = 500, message = ''Lead with cpc source could not be updated.''\<rparr>)
   \<and> fst (update_lead
     (failing (Ads_upload_offline_conversion (Raw_lead ''42'') MESSAGE_RECEIVED)
        RuntimeError (env_at 1700000300250000))
     [abc_item] MESSAGE_RECEIVED ''42'' abc_world) =
     Inr (Some \<lparr>statusCode = 500, message = ''Lead with cpc source could not be updated.''\<rparr>)"
  using
    cpc_failures_share_one_outcome [of
      "failing (Kommo_update_lead ''42'' ''cpc''
         [(''gclid'', Some ''abc''), (''gbraid'', None), (''page_path'', Some ''/p'')])
        RuntimeError (env_at 1700000300250000)" abc_item abc_world "''42''" "[]" MESSAGE_RECEIVED]
    cpc_failures_share_one_outcome [of
      "failing (Ads_upload_offline_conversion (Raw_lead ''42'') MESSAGE_RECEIVED)
        RuntimeError (env_at 1700000300250000)" abc_item abc_world "''42''" "[]" MESSAGE_RECEIVED]
  by (simp add: input_defs)

text \<open>
  Claim C4, as stated, fails: the three calls of lines 240 to 259 share one \<^verbatim>\<open>try\<close> and
  one \<^verbatim>\<open>except\<close> clause. For the webhook of lead 42 five minutes after the click, the
  response when the CRM update fails equals the response when the conversion upload
  fails; only the calls made differ.
\<close>

theorem crm_and_ads_failures_conflated:
  "lambda_handler
     (failing (Kommo_update_lead ''42'' ''cpc''
         [(''gclid'', Some ''abc''), (''gbraid'', None), (''page_path'', Some ''/p'')])
        RuntimeError (env_at 1700000300250000))
     (lead_event [(''conversion_type'', ''message_received'')] [(''leads[add][0][id]'', ''42'')])
     abc_world =
     (Inr (Some \<lparr>statusCode = 500, message = ''Lead with cpc source could not be updated.''\<rparr>),
      \<lparr>table = [Item (abc_item\<lparr>matched := True\<rparr>)],
       calls = [Table_put_item abc_item, Table_query, Table_update_item 1700000900,
         Kommo_update_lead ''42'' ''cpc''
           [(''gclid'', Some ''abc''), (''gbraid'', None), (''page_path'', Some ''/p'')]]\<rparr>)
   \<and> lambda_handler
     (failing (Ads_upload_offline_conversion (Raw_lead ''42'') MESSAGE_RECEIVED)
        RuntimeError (env_at 1700000300250000))
     (lead_event [(''conversion_type'', ''message_received'')] [(''leads[add][0][id]'', ''42'')])
     abc_world =
     (Inr (Some \<lparr>statusCode = 500, message = ''Lead with cpc source could not be updated.''\<rparr>),
      \<lparr>table = [Item (abc_item\<lparr>matched := True\<rparr>)],
       calls = [Table_put_item abc_item, Table_query, Table_update_item 1700000900,
         Kommo_update_lead ''42'' ''cpc''
           [(''gclid'', Some ''abc''), (''gbraid'', None), (''page_path'', Some ''/p'')],
         Kommo_construct_raw_lead ''42'',
         Ads_upload_offline_conversion (Raw_lead ''42'') MESSAGE_RECEIVED]\<rparr>)"
  by (simp add: handler_defs input_defs)

section \<open>Claiming a click\<close>
























end
